theory Spec2Isabelle
  imports Main "HOL-Library.Word" "HOL-Library.Signed_Division"
begin

unbundle bit_operations_syntax

section \<open>Target types\<close>

text \<open>
  The sketches run on an 8-bit AVR (Timer1 registers \<open>TCCR1A\<close>, \<open>OCR1A\<close>, \<open>TIMSK1\<close>;
  RoniMain.cpp says so itself: "32-bit variable updated in ISR (AVR is 8-bit)").
  There \<open>int\<close> has 16 bits, \<open>unsigned long\<close> and \<open>long\<close> have 32, \<open>uint8_t\<close> has 8;
  \<open>TCCR1A\<close>, \<open>TCCR1B\<close>, \<open>TIMSK1\<close> are 8-bit and \<open>TCNT1\<close>, \<open>OCR1A\<close> 16-bit registers.
  Signed overflow, undefined in C++, is modelled by the two's complement wrap-around
  the 16-bit and 32-bit arithmetic of the target produces.
\<close>

type_synonym int16 = "16 word"
type_synonym ulong = "32 word"
type_synonym uint8 = "8 word"
type_synonym reg8 = "8 word"
type_synonym reg16 = "16 word"

datatype pin = LOW | HIGH

text \<open>\<open>!digitalRead(pin)\<close> written back with \<open>digitalWrite\<close>.\<close>

fun toggle :: "pin \<Rightarrow> pin" where
  "toggle LOW = HIGH"
| "toggle HIGH = LOW"

text \<open>What \<open>Serial.print\<close> and \<open>Serial.println\<close> send: text or a decimal number,
  without or with the line end.\<close>

datatype tx = Txt string | TxtLn string | Dec int | DecLn int

text \<open>The three outcomes of a released press.\<close>

datatype press = Short | Medium | Long

text \<open>Bit numbers of the ATmega328P register bits the sketches name
  (\<open>avr/io.h\<close>, not part of the repository).\<close>

definition CS10 :: nat where "CS10 = 0"
definition CS11 :: nat where "CS11 = 1"
definition CS12 :: nat where "CS12 = 2"
definition WGM12 :: nat where "WGM12 = 3"
definition OCIE1A :: nat where "OCIE1A = 1"

text \<open>The LED pin and the Timer1 registers, shared by all the timer sketches.\<close>

record avr =
  ledPin :: pin
  TCCR1A :: reg8
  TCCR1B :: reg8
  TCNT1 :: reg16
  OCR1A :: reg16
  TIMSK1 :: reg8

text \<open>Timer1 counts only while a clock source is selected (one of CS12..CS10 set), and
  its compare-match handler runs only while \<open>OCIE1A\<close> is set in \<open>TIMSK1\<close>. A compare
  match happens every \<open>OCR1A + 1\<close> timer ticks in CTC mode.\<close>

definition clockRunning :: "'a avr_scheme \<Rightarrow> bool" where
  "clockRunning s = (TCCR1B s AND (push_bit CS12 1 OR push_bit CS11 1 OR push_bit CS10 1) \<noteq> 0)"

definition compareIrqEnabled :: "'a avr_scheme \<Rightarrow> bool" where
  "compareIrqEnabled s = bit (TIMSK1 s) OCIE1A"

definition periodTicks :: "'a avr_scheme \<Rightarrow> nat" where
  "periodTicks s = unat (OCR1A s) + 1"

text \<open>The pin and the registers after a reset of the ATmega328P.\<close>

definition hw_reset :: avr where
  "hw_reset = \<lparr>ledPin = LOW, TCCR1A = 0, TCCR1B = 0, TCNT1 = 0, OCR1A = 0, TIMSK1 = 0\<rparr>"

section \<open>The interrupt-driven sketch with flags (src/unnamed/part_000)\<close>

definition SHORT_PRESS_TIME :: ulong where "SHORT_PRESS_TIME = 1500"
definition LONG_PRESS_TIME :: ulong where "LONG_PRESS_TIME = 4000"
definition DEBOUNCE_TIME :: ulong where "DEBOUNCE_TIME = 50"

record sketch = avr +
  PressCounter :: int16
  pressTime :: ulong
  lastISRTime :: ulong
  lastDuration :: ulong
  actionShort :: bool
  actionStart :: bool
  actionStop :: bool
  Blink :: bool
  feedbackLedOn :: bool
  lastFlashStart :: ulong
  serial :: "tx list"

text \<open>The test at the head of \<open>buttonISR\<close>: a transition at time \<open>now\<close> is handled
  unless it comes less than \<open>DEBOUNCE_TIME\<close> after the stored timestamp.\<close>

definition accepted :: "ulong \<Rightarrow> sketch \<Rightarrow> bool" where
  "accepted now s = (\<not> now - lastISRTime s < DEBOUNCE_TIME)"

text \<open>The \<open>if / else if / else\<close> chain of \<open>buttonISR\<close> over the duration.\<close>

definition classify :: "ulong \<Rightarrow> press" where
  "classify duration =
     (if duration < SHORT_PRESS_TIME then Short
      else if duration < LONG_PRESS_TIME then Medium
      else Long)"

text \<open>\<open>buttonISR\<close>; \<open>now\<close> is what \<open>millis()\<close> returns and \<open>lvl\<close> what
  \<open>digitalRead(buttonPin)\<close> returns.\<close>

definition buttonISR :: "ulong \<Rightarrow> pin \<Rightarrow> sketch \<Rightarrow> sketch" where
  "buttonISR now lvl s =
     (if now - lastISRTime s < DEBOUNCE_TIME then s
      else
        let s1 = s\<lparr>lastISRTime := now\<rparr> in
        if lvl = HIGH then s1\<lparr>pressTime := now\<rparr>
        else
          let duration = now - pressTime s1;
              s2 = s1\<lparr>lastDuration := duration\<rparr>
          in case classify duration of
               Short \<Rightarrow>
                 (if \<not> Blink s2
                  then s2\<lparr>PressCounter := PressCounter s2 + 1, actionShort := True\<rparr>
                  else s2)
             | Medium \<Rightarrow> s2\<lparr>actionStart := True\<rparr>
             | Long \<Rightarrow> s2\<lparr>actionStop := True\<rparr>)"

text \<open>\<open>ISR(TIMER1_COMPA_vect)\<close>.\<close>

definition timer1ISR :: "sketch \<Rightarrow> sketch" where
  "timer1ISR s = (if Blink s then s\<lparr>ledPin := toggle (ledPin s)\<rparr> else s)"

text \<open>The first statement of \<open>startTimer\<close>: \<open>if (counts <= 0) counts = 1;\<close>.\<close>

definition clampCounts :: "int16 \<Rightarrow> int16" where
  "clampCounts counts = (if counts \<le>s 0 then 1 else counts)"

text \<open>\<open>startTimer\<close>. The product and the difference are 16-bit, as is \<open>OCR1A\<close>.\<close>

definition startTimer :: "int16 \<Rightarrow> sketch \<Rightarrow> sketch" where
  "startTimer counts s =
     (let counts' = clampCounts counts in
      s\<lparr>TCCR1A := 0,
        TCCR1B := 0 OR (push_bit WGM12 1 OR push_bit CS12 1 OR push_bit CS10 1),
        TCNT1 := 0,
        OCR1A := (7812 * counts') - 1,
        TIMSK1 := TIMSK1 s OR push_bit OCIE1A 1\<rparr>)"

text \<open>\<open>stopTimer\<close>.\<close>

definition stopTimer :: "sketch \<Rightarrow> sketch" where
  "stopTimer s =
     s\<lparr>TIMSK1 := TIMSK1 s AND NOT (push_bit OCIE1A 1),
       TCCR1B := 0,
       TCCR1A := 0,
       TCNT1 := 0,
       ledPin := LOW,
       PressCounter := 0,
       Blink := False,
       feedbackLedOn := False\<rparr>"

text \<open>The four blocks of \<open>loop\<close>, in the order of the source.\<close>

definition procStop :: "sketch \<Rightarrow> sketch" where
  "procStop s =
     (if actionStop s
      then stopTimer
             (s\<lparr>actionStop := False, actionStart := False,
                serial := serial s @
                  [Txt ''OFF: Duration '', Dec (uint (lastDuration s)),
                   TxtLn '' ms. System Shutdown.'']\<rparr>)
      else s)"

definition procShort :: "ulong \<Rightarrow> sketch \<Rightarrow> sketch" where
  "procShort t s =
     (if actionShort s
      then s\<lparr>actionShort := False,
             serial := serial s @
               [Txt ''SHORT PRESS: Duration '', Dec (uint (lastDuration s)),
                Txt '' ms. Counter = '', DecLn (sint (PressCounter s))],
             ledPin := HIGH,
             feedbackLedOn := True,
             lastFlashStart := t\<rparr>
      else s)"

definition flashTimeout :: "ulong \<Rightarrow> sketch \<Rightarrow> sketch" where
  "flashTimeout t s =
     (if feedbackLedOn s \<and> t - lastFlashStart s \<ge> 200
      then s\<lparr>ledPin := LOW, feedbackLedOn := False\<rparr>
      else s)"

definition procStart :: "sketch \<Rightarrow> sketch" where
  "procStart s =
     (if actionStart s
      then
        let s1 = s\<lparr>actionStart := False\<rparr> in
        if \<not> Blink s1 \<and> 0 <s PressCounter s1
        then startTimer (PressCounter s1)
               (s1\<lparr>serial := serial s1 @
                     [Txt ''CONFIRMED: Duration '', Dec (uint (lastDuration s1)),
                      Txt '' ms. Blinking every '', Dec (sint (PressCounter s1)),
                      TxtLn '' seconds.''],
                   Blink := True\<rparr>)
        else if \<not> Blink s1 \<and> PressCounter s1 = 0
        then s1\<lparr>serial := serial s1 @
                    [Txt ''ERROR: Long press detected ('', Dec (uint (lastDuration s1)),
                     TxtLn '' ms), but no counts recorded.'']\<rparr>
        else s1
      else s)"

text \<open>One pass of \<open>loop\<close>; \<open>t1\<close> and \<open>t2\<close> are what its two calls of \<open>millis()\<close>
  return.\<close>

definition loop :: "ulong \<Rightarrow> ulong \<Rightarrow> sketch \<Rightarrow> sketch" where
  "loop t1 t2 s = procStart (flashTimeout t2 (procShort t1 (procStop s)))"

text \<open>The globals as initialised and \<open>setup\<close> run on them. \<open>setup\<close> leaves the Timer1
  registers as it finds them, so they are taken from \<open>hw\<close>.\<close>

definition setup_sketch :: "avr \<Rightarrow> sketch" where
  "setup_sketch hw =
     \<lparr>ledPin = LOW, TCCR1A = TCCR1A hw, TCCR1B = TCCR1B hw, TCNT1 = TCNT1 hw,
      OCR1A = OCR1A hw, TIMSK1 = TIMSK1 hw,
      PressCounter = 0, pressTime = 0, lastISRTime = 0, lastDuration = 0,
      actionShort = False, actionStart = False, actionStop = False,
      Blink = False, feedbackLedOn = False, lastFlashStart = 0,
      serial = [TxtLn ''System Ready. Wiring: Pin 2 (Button), Pin 10 (LED).'']\<rparr>"

section \<open>The sketch that does everything in the handler (HW3/src/main.cpp)\<close>

text \<open>main.cpp never writes to \<open>Serial\<close>: \<open>serial_main\<close>, what it has sent, is
  a field no function of it changes.\<close>

record hw3 = avr +
  pressStartTime :: ulong
  shortPressCount :: uint8
  blinkHalfPeriod :: int16
  serial_main :: "tx list"

text \<open>The \<open>if / else if / else\<close> chain of \<open>handleButtonISR\<close> over the duration.\<close>

definition classify_main :: "ulong \<Rightarrow> press" where
  "classify_main duration =
     (if duration < 1500 then Short
      else if duration \<ge> 1500 \<and> duration \<le> 4000 then Medium
      else Long)"

text \<open>\<open>startBlinking\<close>. \<open>count * 500\<close> is a 16-bit \<open>int\<close> product widened to
  \<open>long\<close>; the product with 15625, the truncating division and the difference are
  32-bit; the assignment to \<open>OCR1A\<close> keeps the low 16 bits.\<close>

definition startBlinking :: "uint8 \<Rightarrow> hw3 \<Rightarrow> hw3" where
  "startBlinking count s =
     (if count = 0 then s
      else
        let intervalMs = (scast ((ucast count :: int16) * 500) :: 32 word);
            ticks = (word_of_int (sint (15625 * intervalMs) sdiv 1000) :: 32 word) - 1
        in s\<lparr>OCR1A := ucast ticks,
              TCCR1B := TCCR1B s OR (push_bit CS12 1 OR push_bit CS10 1)\<rparr>)"

text \<open>\<open>stopSystem\<close>.\<close>

definition stopSystem :: "hw3 \<Rightarrow> hw3" where
  "stopSystem s =
     s\<lparr>TCCR1B := TCCR1B s AND NOT (push_bit CS12 1 OR push_bit CS11 1 OR push_bit CS10 1),
       ledPin := LOW,
       shortPressCount := 0\<rparr>"

text \<open>\<open>handleButtonISR\<close>; each run reads \<open>millis()\<close> once, \<open>now\<close>.\<close>

definition handleButtonISR :: "ulong \<Rightarrow> pin \<Rightarrow> hw3 \<Rightarrow> hw3" where
  "handleButtonISR now lvl s =
     (if lvl = HIGH then s\<lparr>pressStartTime := now\<rparr>
      else
        let duration = now - pressStartTime s
        in case classify_main duration of
             Short \<Rightarrow> s\<lparr>shortPressCount := shortPressCount s + 1\<rparr>
           | Medium \<Rightarrow> startBlinking (shortPressCount s) s
           | Long \<Rightarrow> stopSystem s)"

text \<open>\<open>ISR(TIMER1_COMPA_vect)\<close> of main.cpp.\<close>

definition timer1ISR_main :: "hw3 \<Rightarrow> hw3" where
  "timer1ISR_main s = s\<lparr>ledPin := toggle (ledPin s)\<rparr>"

text \<open>\<open>setup\<close> of main.cpp on the initialised globals; the LED level and the registers
  it does not write are taken from \<open>hw\<close>.\<close>

definition setup_main :: "avr \<Rightarrow> hw3" where
  "setup_main hw =
     \<lparr>ledPin = ledPin hw, TCCR1A = 0, TCCR1B = 0 OR push_bit WGM12 1, TCNT1 = 0,
      OCR1A = OCR1A hw, TIMSK1 = TIMSK1 hw OR push_bit OCIE1A 1,
      pressStartTime = 0, shortPressCount = 0, blinkHalfPeriod = 0, serial_main = []\<rparr>"

section \<open>The earlier interrupt-driven sketch (HW3/src/RoniMain.cpp, second part)\<close>

text \<open>Its globals are those of \<^typ>\<open>sketch\<close> without \<open>lastDuration\<close>, which stays as
  it is; its thresholds and debounce time have the same values, and its duration chain
  is that of \<^const>\<open>classify\<close>.\<close>

definition buttonISR_roni :: "ulong \<Rightarrow> pin \<Rightarrow> sketch \<Rightarrow> sketch" where
  "buttonISR_roni now lvl s =
     (if now - lastISRTime s < DEBOUNCE_TIME then s
      else
        let s1 = s\<lparr>lastISRTime := now\<rparr> in
        if lvl = HIGH then s1\<lparr>pressTime := now\<rparr>
        else
          let duration = now - pressTime s1
          in case classify duration of
               Short \<Rightarrow>
                 (if \<not> Blink s1
                  then s1\<lparr>PressCounter := PressCounter s1 + 1, actionShort := True\<rparr>
                  else s1)
             | Medium \<Rightarrow> s1\<lparr>actionStart := True\<rparr>
             | Long \<Rightarrow> s1\<lparr>actionStop := True\<rparr>)"

definition timer1ISR_roni :: "sketch \<Rightarrow> sketch" where
  "timer1ISR_roni s = s\<lparr>ledPin := toggle (ledPin s)\<rparr>"

text \<open>The first statement of this \<open>startTimer\<close>: \<open>if (counts == 0) counts = 1;\<close>.\<close>

definition clampCounts_roni :: "int16 \<Rightarrow> int16" where
  "clampCounts_roni counts = (if counts = 0 then 1 else counts)"

definition startTimer_roni :: "int16 \<Rightarrow> sketch \<Rightarrow> sketch" where
  "startTimer_roni counts s =
     (let counts' = clampCounts_roni counts in
      s\<lparr>TCCR1A := 0,
        TCNT1 := 0,
        OCR1A := (7812 * counts') - 1,
        TCCR1B := 0 OR (push_bit WGM12 1 OR push_bit CS12 1 OR push_bit CS10 1),
        TIMSK1 := TIMSK1 s OR push_bit OCIE1A 1\<rparr>)"

definition stopTimer_roni :: "sketch \<Rightarrow> sketch" where
  "stopTimer_roni s =
     s\<lparr>TCCR1B := 0, TIMSK1 := 0, ledPin := LOW, PressCounter := 0, Blink := False\<rparr>"

text \<open>The blocks of its \<open>loop\<close>; the third block is the same text as in part_000,
  \<^const>\<open>flashTimeout\<close>. \<open>delay(100)\<close> changes no variable.\<close>

definition procStop_roni :: "sketch \<Rightarrow> sketch" where
  "procStop_roni s =
     (if actionStop s
      then stopTimer_roni
             (s\<lparr>actionStop := False,
                serial := serial s @
                  [TxtLn ''!!! SYSTEM SHUTDOWN !!!'',
                   TxtLn ''The system is turning OFF now...'']\<rparr>)
      else s)"

definition procShort_roni :: "ulong \<Rightarrow> sketch \<Rightarrow> sketch" where
  "procShort_roni t s =
     (if actionShort s
      then s\<lparr>actionShort := False,
             serial := serial s @
               [Txt ''Short press number: '', DecLn (sint (PressCounter s))],
             ledPin := HIGH,
             feedbackLedOn := True,
             lastFlashStart := t\<rparr>
      else s)"

definition procStart_roni :: "sketch \<Rightarrow> sketch" where
  "procStart_roni s =
     (if actionStart s
      then
        let s1 = s\<lparr>actionStart := False\<rparr> in
        if \<not> Blink s1 \<and> 0 <s PressCounter s1
        then (startTimer_roni (PressCounter s1)
                (s1\<lparr>serial := serial s1 @
                      [Txt ''Medium press. Starting with: '',
                       DecLn (sint (PressCounter s1))],
                    ledPin := LOW\<rparr>))\<lparr>Blink := True\<rparr>
        else s1
      else s)"

definition loop_roni :: "ulong \<Rightarrow> ulong \<Rightarrow> sketch \<Rightarrow> sketch" where
  "loop_roni t1 t2 s =
     procStart_roni (flashTimeout t2 (procShort_roni t1 (procStop_roni s)))"

section \<open>Runs of the part_000 sketch\<close>

text \<open>What happens to the sketch, one thing at a time: a change of the button pin
  (\<open>buttonISR\<close> runs, reading \<open>millis()\<close> and the pin), a Timer1 compare match (its
  handler runs if the timer counts and the interrupt is enabled), or a pass of \<open>loop\<close>.
  The handlers are taken between passes of \<open>loop\<close>, not inside one.\<close>

datatype event = Button ulong pin | Timer1 | Loop ulong ulong

fun step :: "event \<Rightarrow> sketch \<Rightarrow> sketch" where
  "step (Button now lvl) s = buttonISR now lvl s"
| "step Timer1 s = (if clockRunning s \<and> compareIrqEnabled s then timer1ISR s else s)"
| "step (Loop t1 t2) s = loop t1 t2 s"

fun run :: "event list \<Rightarrow> sketch \<Rightarrow> sketch" where
  "run [] s = s"
| "run (e # es) s = run es (step e s)"

text \<open>The event is a release that \<open>buttonISR\<close> handles and puts between the two
  thresholds: the press that raises \<open>actionStart\<close>.\<close>

fun isMediumPress :: "event \<Rightarrow> sketch \<Rightarrow> bool" where
  "isMediumPress (Button now lvl) s =
     (accepted now s \<and> lvl = LOW \<and> classify (now - pressTime s) = Medium)"
| "isMediumPress Timer1 s = False"
| "isMediumPress (Loop t1 t2) s = False"

fun noMedium :: "event list \<Rightarrow> sketch \<Rightarrow> bool" where
  "noMedium [] s = True"
| "noMedium (e # es) s = (\<not> isMediumPress e s \<and> noMedium es (step e s))"


section \<open>The polling sketch with the Timer2 tick (HW3/src/RoniMain.cpp, first part)\<close>

















definition systemOff :: "sketch \<Rightarrow> bool" where
  "systemOff s =
     (\<not> Blink s \<and> \<not> actionStart s \<and> \<not> clockRunning s \<and> \<not> compareIrqEnabled s)"

section \<open>Sample runs\<close>

text \<open>Presses of 100 ms, handled by a pass of \<open>loop\<close> each, and one of 2000 ms.\<close>

definition shortPress :: "event list" where
  "shortPress = [Button 1000 HIGH, Button 1100 LOW, Loop 1100 1100]"

definition threeShort :: "event list" where
  "threeShort = shortPress @
     [Button 2000 HIGH, Button 2100 LOW, Loop 2100 2100,
      Button 3000 HIGH, Button 3100 LOW, Loop 3100 3100]"

definition nineShort :: "event list" where
  "nineShort = threeShort @
     [Button 4000 HIGH, Button 4100 LOW, Loop 4100 4100,
      Button 5000 HIGH, Button 5100 LOW, Loop 5100 5100,
      Button 6000 HIGH, Button 6100 LOW, Loop 6100 6100,
      Button 7000 HIGH, Button 7100 LOW, Loop 7100 7100,
      Button 8000 HIGH, Button 8100 LOW, Loop 8100 8100,
      Button 9000 HIGH, Button 9100 LOW, Loop 9100 9100]"

definition mediumPress :: "event list" where
  "mediumPress = [Button 10000 HIGH, Button 12000 LOW, Loop 12000 12000]"

text \<open>part_000 blinking after one short and one medium press.\<close>

definition blinking :: sketch where
  "blinking = run (shortPress @ mediumPress) (setup_sketch hw_reset)"

text \<open>part_000 after a short press, then a press of 2000 ms and one of 5000 ms with no
  pass of \<open>loop\<close> after either: \<open>actionStart\<close> and \<open>actionStop\<close> are both raised.\<close>

definition bothPending :: sketch where
  "bothPending =
     run (shortPress @
          [Button 2000 HIGH, Button 4000 LOW, Button 5000 HIGH, Button 10000 LOW])
       (setup_sketch hw_reset)"

definition afterwards :: "event list" where
  "afterwards =
     [Button 20000 HIGH, Button 20100 LOW, Loop 20100 20100, Timer1, Loop 20400 20400]"

text \<open>main.cpp after one short press and one press of 2000 ms: the timer runs.\<close>

definition main_blinking :: hw3 where
  "main_blinking =
     handleButtonISR 12000 LOW (handleButtonISR 10000 HIGH
       (handleButtonISR 1100 LOW (handleButtonISR 1000 HIGH (setup_main hw_reset))))"

text \<open>main.cpp after one short press and a press of exactly 4000 ms.\<close>

definition main_press4000 :: hw3 where
  "main_press4000 =
     handleButtonISR 14000 LOW (handleButtonISR 10000 HIGH
       (handleButtonISR 1100 LOW (handleButtonISR 1000 HIGH (setup_main hw_reset))))"




section \<open>Basic facts\<close>

lemmas bitnums = CS10_def CS11_def CS12_def WGM12_def OCIE1A_def

lemma and_not7_and7: "((x::8 word) AND NOT 7) AND 7 = 0"
  by (rule bit_word_eqI) (auto simp: bit_simps)

lemma clampCounts_id: "0 <s c \<Longrightarrow> clampCounts c = c"
  by (simp add: clampCounts_def word_sless_alt word_sle_eq)

lemma stopTimer_off:
  "\<not> Blink (stopTimer s) \<and> \<not> clockRunning (stopTimer s) \<and>
   \<not> compareIrqEnabled (stopTimer s) \<and>
   actionStart (stopTimer s) = actionStart s \<and> actionStop (stopTimer s) = actionStop s"
  by (simp add: stopTimer_def clockRunning_def compareIrqEnabled_def bitnums bit_simps)

lemma stopSystem_not_running: "\<not> clockRunning (stopSystem t)"
  using and_not7_and7[of "TCCR1B t"] by (simp add: clockRunning_def stopSystem_def bitnums)

lemma setup_accepts_1000: "accepted 1000 (setup_sketch hw_reset)"
  by (simp add: accepted_def setup_sketch_def DEBOUNCE_TIME_def)

section \<open>Press classification\<close>

text \<open>
  C1 (as amended). In \<open>buttonISR\<close> of part_000 and of RoniMain.cpp a duration \<open>d\<close> is
  Short iff \<open>d < 1500\<close>, Medium iff \<open>1500 \<le> d < 4000\<close> and Long iff \<open>d \<ge> 4000\<close>, so
  1500 is Medium and 4000 is Long. In \<open>handleButtonISR\<close> of main.cpp the upper bound
  belongs to Medium: Medium iff \<open>1500 \<le> d \<le> 4000\<close>, Long iff \<open>d > 4000\<close>.
\<close>

theorem classify_thresholds:
  "(classify d = Short \<longleftrightarrow> d < 1500) \<and>
   (classify d = Medium \<longleftrightarrow> 1500 \<le> d \<and> d < 4000) \<and>
   (classify d = Long \<longleftrightarrow> 4000 \<le> d) \<and>
   classify 1499 = Short \<and> classify 1500 = Medium \<and>
   classify 3999 = Medium \<and> classify 4000 = Long \<and>
   (classify_main d = Short \<longleftrightarrow> d < 1500) \<and>
   (classify_main d = Medium \<longleftrightarrow> 1500 \<le> d \<and> d \<le> 4000) \<and>
   (classify_main d = Long \<longleftrightarrow> 4000 < d) \<and>
   classify_main 1500 = Medium \<and> classify_main 4000 = Medium \<and> classify_main 4001 = Long"
  by (auto simp: classify_def classify_main_def SHORT_PRESS_TIME_def LONG_PRESS_TIME_def
      word_less_nat_alt word_le_nat_alt)

text \<open>The claim as written fails in main.cpp at \<open>d = 4000\<close>: a press of exactly
  4000 ms after a short one is Medium, not Long. It starts the timer and keeps the count,
  where \<open>stopSystem\<close> would stop the clock and clear the count.\<close>

theorem classify_main_4000_counterexample:
  "(14000 :: ulong) - 10000 = 4000 \<and> (4000 :: ulong) \<ge> 4000 \<and>
   classify_main 4000 = Medium \<and> classify_main 4000 \<noteq> Long \<and>
   clockRunning main_press4000 \<and> shortPressCount main_press4000 = 1"
proof -
  have a: "(14000 :: ulong) - 10000 = 4000" "(4000 :: ulong) \<ge> 4000" by simp_all
  have b: "classify_main 4000 = Medium" by (simp add: classify_main_def)
  have c: "clockRunning main_press4000" by code_simp
  have d: "shortPressCount main_press4000 = 1" by code_simp
  from a b c d show ?thesis by simp
qed

section \<open>Debounce\<close>

text \<open>
  C6 (as amended). For two consecutive transitions of the button pin of which the first
  is accepted by \<open>buttonISR\<close> (part_000 and RoniMain.cpp alike): the first becomes the
  stored debounce timestamp, and the second is accepted iff the difference of the two
  32-bit timestamps is not below 50 ms. A transition that is not accepted leaves the
  whole state as it is, the debounce timestamp included.
\<close>

theorem debounce_pair:
  "(accepted ta s \<longrightarrow>
      lastISRTime (buttonISR ta la s) = ta \<and>
      (accepted tb (buttonISR ta la s) \<longleftrightarrow> \<not> tb - ta < 50) \<and>
      lastISRTime (buttonISR_roni ta la s) = ta \<and>
      (accepted tb (buttonISR_roni ta la s) \<longleftrightarrow> \<not> tb - ta < 50)) \<and>
   (\<not> accepted tb s \<longrightarrow> buttonISR tb lb s = s \<and> buttonISR_roni tb lb s = s)"
  by (auto simp: buttonISR_def buttonISR_roni_def accepted_def Let_def DEBOUNCE_TIME_def
      split: press.splits)

text \<open>After a press accepted at 1000 ms, a release at 1030 ms is dropped and changes
  nothing, one at 1050 ms would be accepted.\<close>

theorem debounce_pair_witness:
  "accepted 1000 (setup_sketch hw_reset) \<and>
   lastISRTime (buttonISR 1000 HIGH (setup_sketch hw_reset)) = 1000 \<and>
   \<not> accepted 1030 (buttonISR 1000 HIGH (setup_sketch hw_reset)) \<and>
   accepted 1050 (buttonISR 1000 HIGH (setup_sketch hw_reset)) \<and>
   buttonISR 1030 LOW (buttonISR 1000 HIGH (setup_sketch hw_reset))
     = buttonISR 1000 HIGH (setup_sketch hw_reset)"
proof -
  let ?s = "setup_sketch hw_reset"
  note a = setup_accepts_1000
  have first: "lastISRTime (buttonISR 1000 HIGH ?s) = 1000"
    and near: "\<not> accepted 1030 (buttonISR 1000 HIGH ?s)"
    using debounce_pair [of 1000 ?s HIGH 1030 LOW] a by simp_all
  have far: "accepted 1050 (buttonISR 1000 HIGH ?s)"
    using debounce_pair [of 1000 ?s HIGH 1050 LOW] a by simp
  have same: "buttonISR 1030 LOW (buttonISR 1000 HIGH ?s) = buttonISR 1000 HIGH ?s"
    using debounce_pair [of 1000 "buttonISR 1000 HIGH ?s" HIGH 1030 LOW] near by simp
  from a first near far same show ?thesis by simp
qed

text \<open>The claim as written, for every pair of transitions, fails when the first of the
  pair is itself dropped: after a press accepted at 1000 ms, of the transitions at
  1030 ms and 1060 ms (30 ms apart) the first is rejected and the second accepted, and
  of those at 1030 ms and 1090 ms (60 ms apart) only the second is accepted.\<close>

theorem debounce_pair_counterexample:
  "(1060 - 1030 :: ulong) < 50 \<and>
   \<not> accepted 1030 (buttonISR 1000 HIGH (setup_sketch hw_reset)) \<and>
   accepted 1060 (buttonISR 1030 LOW (buttonISR 1000 HIGH (setup_sketch hw_reset))) \<and>
   \<not> (1090 - 1030 :: ulong) < 50 \<and>
   accepted 1090 (buttonISR 1030 LOW (buttonISR 1000 HIGH (setup_sketch hw_reset)))"
  by (simp add: accepted_def buttonISR_def setup_sketch_def DEBOUNCE_TIME_def)

section \<open>Press durations\<close>

text \<open>
  C7. The duration of a press is the unsigned 32-bit difference of the release and the
  press timestamps. For a press at time \<open>T1\<close> and a release at time \<open>T2 \<ge> T1\<close>
  (milliseconds since boot, unbounded), read through the 32-bit counter: the duration
  that part_000 stores in \<open>lastDuration\<close> and the one \<open>handleButtonISR\<close> of main.cpp
  classifies are \<open>(T2 - T1) mod 2^32\<close>, which is the elapsed time \<open>T2 - T1\<close> whenever
  that is below \<open>2^32\<close> ms, whether or not the counter wrapped in between; and
  \<open>0x00000010 - 0xFFFFFFF0 = 0x20\<close>.
\<close>

theorem duration_wraparound:
  assumes "T1 \<le> T2"
  shows
    "(pressTime s = of_nat T1 \<and> accepted (of_nat T2) s \<longrightarrow>
        lastDuration (buttonISR (of_nat T2) LOW s) = of_nat T2 - pressTime s \<and>
        unat (lastDuration (buttonISR (of_nat T2) LOW s)) = (T2 - T1) mod 2 ^ 32) \<and>
     pressStartTime (handleButtonISR (of_nat T1) HIGH t) = of_nat T1 \<and>
     unat (of_nat T2 - pressStartTime (handleButtonISR (of_nat T1) HIGH t))
       = (T2 - T1) mod 2 ^ 32 \<and>
     handleButtonISR (of_nat T2) LOW (handleButtonISR (of_nat T1) HIGH t) =
       (case classify_main (of_nat (T2 - T1)) of
          Short \<Rightarrow> t\<lparr>pressStartTime := of_nat T1, shortPressCount := shortPressCount t + 1\<rparr>
        | Medium \<Rightarrow> startBlinking (shortPressCount t) (t\<lparr>pressStartTime := of_nat T1\<rparr>)
        | Long \<Rightarrow> stopSystem (t\<lparr>pressStartTime := of_nat T1\<rparr>)) \<and>
     (T2 - T1 < 2 ^ 32 \<longrightarrow> (T2 - T1) mod 2 ^ 32 = T2 - T1) \<and>
     (0x00000010 :: ulong) - 0xFFFFFFF0 = 0x20"
proof -
  have d: "(of_nat T2 :: ulong) - of_nat T1 = of_nat (T2 - T1)"
    using assms by simp
  have u: "unat (of_nat (T2 - T1) :: ulong) = (T2 - T1) mod 2 ^ 32"
    by (simp add: unat_of_nat)
  have p: "pressTime s = of_nat T1 \<and> accepted (of_nat T2) s \<longrightarrow>
        lastDuration (buttonISR (of_nat T2) LOW s) = of_nat T2 - pressTime s \<and>
        unat (lastDuration (buttonISR (of_nat T2) LOW s)) = (T2 - T1) mod 2 ^ 32"
    using d u
    by (auto simp: buttonISR_def accepted_def Let_def split: press.splits)
  have m1: "pressStartTime (handleButtonISR (of_nat T1) HIGH t) = of_nat T1"
    by (simp add: handleButtonISR_def)
  have m2: "unat (of_nat T2 - pressStartTime (handleButtonISR (of_nat T1) HIGH t))
       = (T2 - T1) mod 2 ^ 32"
    using d u m1 by simp
  have m3: "handleButtonISR (of_nat T2) LOW (handleButtonISR (of_nat T1) HIGH t) =
       (case classify_main (of_nat (T2 - T1)) of
          Short \<Rightarrow> t\<lparr>pressStartTime := of_nat T1, shortPressCount := shortPressCount t + 1\<rparr>
        | Medium \<Rightarrow> startBlinking (shortPressCount t) (t\<lparr>pressStartTime := of_nat T1\<rparr>)
        | Long \<Rightarrow> stopSystem (t\<lparr>pressStartTime := of_nat T1\<rparr>))"
    using d by (simp add: handleButtonISR_def Let_def split: press.splits)
  have w: "(0x00000010 :: ulong) - 0xFFFFFFF0 = 0x20" by simp
  from p m1 m2 m3 w show ?thesis by simp
qed

text \<open>A press at 0xFFFFFFF0 released 32 ms later, after the counter wrapped to
  0x00000010: main.cpp measures 32 ms and counts a short press. In part_000 a release
  80 ms after that press, at 0x00000040, is accepted and stored as 80 ms.\<close>

theorem duration_wraparound_witness:
  "(4294967280 :: nat) \<le> 4294967312 \<and>
   (of_nat 4294967280 :: ulong) = 0xFFFFFFF0 \<and> (of_nat 4294967312 :: ulong) = 0x10 \<and>
   unat (of_nat 4294967312
           - pressStartTime (handleButtonISR (of_nat 4294967280) HIGH (setup_main hw_reset)))
     = 32 \<and>
   shortPressCount
     (handleButtonISR (of_nat 4294967312) LOW
        (handleButtonISR (of_nat 4294967280) HIGH (setup_main hw_reset))) = 1 \<and>
   (4294967280 :: nat) \<le> 4294967360 \<and>
   pressTime (buttonISR (of_nat 4294967280) HIGH (setup_sketch hw_reset)) = of_nat 4294967280 \<and>
   accepted (of_nat 4294967360) (buttonISR (of_nat 4294967280) HIGH (setup_sketch hw_reset)) \<and>
   unat (lastDuration
           (buttonISR (of_nat 4294967360) LOW
              (buttonISR (of_nat 4294967280) HIGH (setup_sketch hw_reset)))) = 80"
proof -
  let ?m = "setup_main hw_reset"
  let ?s = "buttonISR (of_nat 4294967280) HIGH (setup_sketch hw_reset)"
  have le1: "(4294967280 :: nat) \<le> 4294967312" and le2: "(4294967280 :: nat) \<le> 4294967360"
    by simp_all
  have n: "(of_nat 4294967280 :: ulong) = 0xFFFFFFF0" "(of_nat 4294967312 :: ulong) = 0x10"
    by simp_all
  have c: "classify_main (of_nat (4294967312 - 4294967280)) = Short"
    by (simp add: classify_main_def)
  have z: "shortPressCount ?m = 0"
    by (simp add: setup_main_def)
  have pt: "pressTime ?s = of_nat 4294967280"
    by (simp add: buttonISR_def setup_sketch_def DEBOUNCE_TIME_def)
  have ac: "accepted (of_nat 4294967360) ?s"
    by (simp add: accepted_def buttonISR_def setup_sketch_def DEBOUNCE_TIME_def)
  have a: "unat (of_nat 4294967312 - pressStartTime (handleButtonISR (of_nat 4294967280) HIGH ?m))
             = 32"
    using duration_wraparound [OF le1, of s ?m] by simp
  have b: "shortPressCount
     (handleButtonISR (of_nat 4294967312) LOW (handleButtonISR (of_nat 4294967280) HIGH ?m)) = 1"
    using duration_wraparound [OF le1, of s ?m] c z by simp
  have d: "unat (lastDuration (buttonISR (of_nat 4294967360) LOW ?s)) = 80"
    using duration_wraparound [OF le2, of ?s t] pt ac by simp
  from le1 le2 n a b pt ac d show ?thesis by simp
qed

section \<open>Short presses while blinking\<close>

text \<open>
  C5 (as amended). In \<open>buttonISR\<close> of part_000 and of RoniMain.cpp a release classified
  Short while \<open>Blink\<close> is true changes neither \<open>PressCounter\<close> nor \<open>Blink\<close>, the flags,
  the LED or any timer register: if the transition is accepted, only the debounce
  timestamp (and in part_000 \<open>lastDuration\<close>) is stored, otherwise nothing changes.
  \<open>handleButtonISR\<close> of main.cpp has no such guard: a Short release always increments
  \<open>shortPressCount\<close>, also while the timer runs, and changes nothing else.
\<close>

theorem short_while_blinking:
  "(Blink s \<and> classify (now - pressTime s) = Short \<longrightarrow>
      buttonISR now LOW s =
        (if accepted now s
         then s\<lparr>lastISRTime := now, lastDuration := now - pressTime s\<rparr> else s) \<and>
      buttonISR_roni now LOW s =
        (if accepted now s then s\<lparr>lastISRTime := now\<rparr> else s)) \<and>
   (classify_main (now - pressStartTime t) = Short \<longrightarrow>
      handleButtonISR now LOW t = t\<lparr>shortPressCount := shortPressCount t + 1\<rparr>)"
  by (simp add: buttonISR_def buttonISR_roni_def accepted_def handleButtonISR_def Let_def)

text \<open>part_000 blinking with a count of 1: a press at 20000 ms released at 20100 ms
  leaves the count at 1 and the timer as configured. main.cpp after a press at
  1000 ms: the release at 1100 ms makes the count 1.\<close>

theorem short_while_blinking_witness:
  "Blink (buttonISR 20000 HIGH blinking) \<and>
   classify (20100 - pressTime (buttonISR 20000 HIGH blinking)) = Short \<and>
   PressCounter blinking = 1 \<and>
   buttonISR 20100 LOW (buttonISR 20000 HIGH blinking)
     = blinking\<lparr>lastISRTime := 20100, pressTime := 20000, lastDuration := 100\<rparr> \<and>
   classify_main (1100 - pressStartTime (handleButtonISR 1000 HIGH (setup_main hw_reset)))
     = Short \<and>
   shortPressCount
     (handleButtonISR 1100 LOW (handleButtonISR 1000 HIGH (setup_main hw_reset))) = 1"
proof -
  let ?b = "buttonISR 20000 HIGH blinking"
  let ?m = "handleButtonISR 1000 HIGH (setup_main hw_reset)"
  have l: "lastISRTime blinking = 12000" by code_simp
  have bl: "Blink blinking" by code_simp
  have pc: "PressCounter blinking = 1" by code_simp
  have b: "?b = blinking\<lparr>lastISRTime := 20000, pressTime := 20000\<rparr>"
    using l by (simp add: buttonISR_def DEBOUNCE_TIME_def)
  have h1: "Blink ?b" using b bl by simp
  have h2: "classify (20100 - pressTime ?b) = Short"
    using b by (simp add: classify_def SHORT_PRESS_TIME_def)
  have ac: "accepted 20100 ?b"
    using b by (simp add: accepted_def DEBOUNCE_TIME_def)
  have r: "buttonISR 20100 LOW ?b
             = blinking\<lparr>lastISRTime := 20100, pressTime := 20000, lastDuration := 100\<rparr>"
    using short_while_blinking [of ?b 20100 t] h1 h2 ac b by simp
  have m: "pressStartTime ?m = 1000" "shortPressCount ?m = 0"
    by (simp_all add: handleButtonISR_def setup_main_def)
  have h3: "classify_main (1100 - pressStartTime ?m) = Short"
    using m by (simp add: classify_main_def)
  have r2: "shortPressCount (handleButtonISR 1100 LOW ?m) = 1"
    using short_while_blinking [of s 1100 ?m] h3 m by simp
  from h1 h2 pc r h3 r2 show ?thesis by simp
qed

text \<open>The claim as written fails in main.cpp: with the timer running after one short
  and one medium press, a further press of 100 ms raises the count from 1 to 2.\<close>

theorem short_while_blinking_counterexample:
  "clockRunning main_blinking \<and> shortPressCount main_blinking = 1 \<and>
   classify_main (20100 - pressStartTime (handleButtonISR 20000 HIGH main_blinking)) = Short \<and>
   shortPressCount (handleButtonISR 20100 LOW (handleButtonISR 20000 HIGH main_blinking)) = 2"
proof -
  have a: "clockRunning main_blinking" by code_simp
  have b: "shortPressCount main_blinking = 1" by code_simp
  have c: "classify_main (20100 - pressStartTime (handleButtonISR 20000 HIGH main_blinking))
             = Short"
    by code_simp
  have d: "shortPressCount (handleButtonISR 20100 LOW (handleButtonISR 20000 HIGH main_blinking))
             = 2"
    by code_simp
  from a b c d show ?thesis by simp
qed

section \<open>Medium presses\<close>

text \<open>
  C3 (as amended). A Medium classification with a count of zero (and \<open>Blink\<close> false)
  changes no variable apart from the flag it consumes. In part_000 the block of \<open>loop\<close>
  that handles \<open>actionStart\<close> clears the flag and sends the ERROR line, nothing else.
  In main.cpp \<open>startBlinking(0)\<close> returns at once: \<open>handleButtonISR\<close> leaves the state
  as it is and nothing is sent.
\<close>

theorem medium_without_count:
  "(actionStart s \<and> \<not> Blink s \<and> PressCounter s = 0 \<longrightarrow>
      procStart s =
        s\<lparr>actionStart := False,
          serial := serial s @
            [Txt ''ERROR: Long press detected ('', Dec (uint (lastDuration s)),
             TxtLn '' ms), but no counts recorded.'']\<rparr>) \<and>
   startBlinking 0 t = t \<and>
   (shortPressCount t = 0 \<and> classify_main (now - pressStartTime t) = Medium \<longrightarrow>
      handleButtonISR now LOW t = t)"
  by (simp add: procStart_def startBlinking_def handleButtonISR_def Let_def)

text \<open>A press of 2000 ms right after \<open>setup\<close>: part_000 reports the error and keeps
  count 0 and \<open>Blink\<close> false; main.cpp does nothing.\<close>

theorem medium_without_count_witness:
  "actionStart (buttonISR 3000 LOW (buttonISR 1000 HIGH (setup_sketch hw_reset))) \<and>
   \<not> Blink (buttonISR 3000 LOW (buttonISR 1000 HIGH (setup_sketch hw_reset))) \<and>
   PressCounter (buttonISR 3000 LOW (buttonISR 1000 HIGH (setup_sketch hw_reset))) = 0 \<and>
   procStart (buttonISR 3000 LOW (buttonISR 1000 HIGH (setup_sketch hw_reset))) =
     (buttonISR 3000 LOW (buttonISR 1000 HIGH (setup_sketch hw_reset)))
       \<lparr>actionStart := False,
        serial := [TxtLn ''System Ready. Wiring: Pin 2 (Button), Pin 10 (LED).'',
                   Txt ''ERROR: Long press detected ('', Dec 2000,
                   TxtLn '' ms), but no counts recorded.'']\<rparr> \<and>
   shortPressCount (handleButtonISR 1000 HIGH (setup_main hw_reset)) = 0 \<and>
   classify_main (3000 - pressStartTime (handleButtonISR 1000 HIGH (setup_main hw_reset)))
     = Medium \<and>
   handleButtonISR 3000 LOW (handleButtonISR 1000 HIGH (setup_main hw_reset))
     = handleButtonISR 1000 HIGH (setup_main hw_reset)"
proof -
  let ?s = "buttonISR 3000 LOW (buttonISR 1000 HIGH (setup_sketch hw_reset))"
  let ?m = "handleButtonISR 1000 HIGH (setup_main hw_reset)"
  have s1: "actionStart ?s" by code_simp
  have s2: "\<not> Blink ?s" by code_simp
  have s3: "PressCounter ?s = 0" by code_simp
  have s4: "lastDuration ?s = 2000" by code_simp
  have s5: "serial ?s = [TxtLn ''System Ready. Wiring: Pin 2 (Button), Pin 10 (LED).'']"
    by code_simp
  have m1: "shortPressCount ?m = 0" by code_simp
  have m2: "classify_main (3000 - pressStartTime ?m) = Medium" by code_simp
  have r1: "procStart ?s =
     ?s\<lparr>actionStart := False,
        serial := [TxtLn ''System Ready. Wiring: Pin 2 (Button), Pin 10 (LED).'',
                   Txt ''ERROR: Long press detected ('', Dec 2000,
                   TxtLn '' ms), but no counts recorded.'']\<rparr>"
    using medium_without_count [of ?s ?m 3000] s1 s2 s3 s4 s5 by simp
  have r2: "handleButtonISR 3000 LOW ?m = ?m"
    using medium_without_count [of ?s ?m 3000] m1 m2 by simp
  from s1 s2 s3 r1 m1 m2 r2 show ?thesis by simp
qed

text \<open>The claim as written fails in main.cpp, which has no diagnostic channel: after
  a press of 2000 ms with count 0 nothing has been sent.\<close>

theorem medium_without_count_counterexample:
  "shortPressCount (handleButtonISR 1000 HIGH (setup_main hw_reset)) = 0 \<and>
   classify_main (3000 - pressStartTime (handleButtonISR 1000 HIGH (setup_main hw_reset)))
     = Medium \<and>
   serial_main (handleButtonISR 3000 LOW (handleButtonISR 1000 HIGH (setup_main hw_reset))) = []"
proof -
  let ?m = "handleButtonISR 1000 HIGH (setup_main hw_reset)"
  have m1: "shortPressCount ?m = 0" by code_simp
  have m2: "classify_main (3000 - pressStartTime ?m) = Medium" by code_simp
  have m3: "serial_main (handleButtonISR 3000 LOW ?m) = []" by code_simp
  from m1 m2 m3 show ?thesis by simp
qed

text \<open>With a count from 1 to 8 the medium press starts the blinking with a compare period
  of 7812 ticks (half a second at 16 MHz with prescaler 1024) per count, and from then on
  every compare match toggles the LED.\<close>

lemma small_count_cases:
  assumes "0 <s (c::int16)" and "c \<le>s 8"
  shows "c \<in> {1, 2, 3, 4, 5, 6, 7, 8}"
proof -
  from assms have "0 < sint c" and "sint c \<le> 8"
    by (simp_all add: word_sless_alt word_sle_eq)
  then have "sint c \<in> {1, 2, 3, 4, 5, 6, 7, 8}" by auto
  moreover have "c = word_of_int (sint c)" by simp
  ultimately have "c \<in> word_of_int ` {1, 2, 3, 4, 5, 6, 7, 8}" by blast
  then show ?thesis by simp
qed

lemma medium_starts_blinking:
  assumes "actionStart s" and "\<not> Blink s" and "0 <s PressCounter s" and "PressCounter s \<le>s 8"
  shows "Blink (procStart s) \<and> clockRunning (procStart s) \<and> compareIrqEnabled (procStart s) \<and>
         periodTicks (procStart s) = 7812 * nat (sint (PressCounter s)) \<and>
         step Timer1 (procStart s) = (procStart s)\<lparr>ledPin := toggle (ledPin (procStart s))\<rparr>"
proof -
  have c: "clampCounts (PressCounter s) = PressCounter s"
    using assms(3) by (rule clampCounts_id)
  have r: "clockRunning (procStart s)" "compareIrqEnabled (procStart s)" "Blink (procStart s)"
    using assms c
    by (simp_all add: procStart_def startTimer_def Let_def clockRunning_def
          compareIrqEnabled_def bitnums bit_simps)
  have o: "OCR1A (procStart s) = 7812 * PressCounter s - 1"
    using assms c by (simp add: procStart_def startTimer_def Let_def)
  have p: "periodTicks (procStart s) = 7812 * nat (sint (PressCounter s))"
    using small_count_cases [OF assms(3,4)] o by (auto simp: periodTicks_def)
  have t: "step Timer1 (procStart s) = (procStart s)\<lparr>ledPin := toggle (ledPin (procStart s))\<rparr>"
    using r by (simp add: timer1ISR_def)
  from r p t show ?thesis by simp
qed

text \<open>
  C2. After three short presses a medium press sets \<open>Blink\<close> and a compare period of
  \<open>3 * 7812\<close> ticks, as the claim says. After nine short presses it does not: the sketch
  announces "Blinking every 9 seconds", but \<open>7812 * 9 - 1\<close> does not fit the 16-bit
  \<open>OCR1A\<close>, which receives 4771, a period of 4772 ticks (0.3 s) instead of 70308.
\<close>

theorem nine_presses_overflow:
  "PressCounter (run threeShort (setup_sketch hw_reset)) = 3 \<and>
   Blink (run (threeShort @ mediumPress) (setup_sketch hw_reset)) \<and>
   periodTicks (run (threeShort @ mediumPress) (setup_sketch hw_reset)) = 3 * 7812 \<and>
   PressCounter (run nineShort (setup_sketch hw_reset)) = 9 \<and>
   Blink (run (nineShort @ mediumPress) (setup_sketch hw_reset)) \<and>
   drop 37 (serial (run (nineShort @ mediumPress) (setup_sketch hw_reset))) =
     [Txt ''CONFIRMED: Duration '', Dec 2000, Txt '' ms. Blinking every '', Dec 9,
      TxtLn '' seconds.''] \<and>
   OCR1A (run (nineShort @ mediumPress) (setup_sketch hw_reset)) = 4771 \<and>
   periodTicks (run (nineShort @ mediumPress) (setup_sketch hw_reset)) = 4772 \<and>
   periodTicks (run (nineShort @ mediumPress) (setup_sketch hw_reset)) \<noteq> 9 * 7812"
proof -
  let ?three = "run (threeShort @ mediumPress) (setup_sketch hw_reset)"
  let ?nine = "run (nineShort @ mediumPress) (setup_sketch hw_reset)"
  have a1: "PressCounter (run threeShort (setup_sketch hw_reset)) = 3" by code_simp
  have a2: "Blink ?three" by code_simp
  have a3: "OCR1A ?three = 23435" by code_simp
  have b1: "PressCounter (run nineShort (setup_sketch hw_reset)) = 9" by code_simp
  have b2: "Blink ?nine" by code_simp
  have b3: "OCR1A ?nine = 4771" by code_simp
  have b4: "drop 37 (serial ?nine) =
     [Txt ''CONFIRMED: Duration '', Dec 2000, Txt '' ms. Blinking every '', Dec 9,
      TxtLn '' seconds.'']" by code_simp
  have a4: "periodTicks ?three = 3 * 7812" using a3 by (simp add: periodTicks_def)
  have b5: "periodTicks ?nine = 4772" using b3 by (simp add: periodTicks_def)
  from a1 a2 a4 b1 b2 b3 b4 b5 show ?thesis by simp
qed

section \<open>Long presses\<close>

text \<open>
  C4. The reset a Long classification performs is idempotent. In part_000,
  \<open>stopTimer\<close> applied twice gives the state it gives applied once, with
  \<open>PressCounter = 0\<close>, \<open>Blink\<close> and \<open>feedbackLedOn\<close> false, the LED low, the compare
  interrupt disabled and the timer clock stopped; and handling a second raised
  \<open>actionStop\<close> right after the first gives the same state, whatever is taken for the
  serial transcript, which alone grows. In main.cpp \<open>stopSystem\<close> applied twice gives
  the state it gives applied once: count 0, LED low, timer clock stopped.
\<close>

theorem long_idempotent:
  "stopTimer (stopTimer s) = stopTimer s \<and>
   PressCounter (stopTimer s) = 0 \<and> \<not> Blink (stopTimer s) \<and>
   \<not> feedbackLedOn (stopTimer s) \<and> ledPin (stopTimer s) = LOW \<and>
   \<not> compareIrqEnabled (stopTimer s) \<and> \<not> clockRunning (stopTimer s) \<and>
   procStop (s\<lparr>actionStop := True\<rparr>) =
     stopTimer (s\<lparr>actionStop := False, actionStart := False,
       serial := serial s @
         [Txt ''OFF: Duration '', Dec (uint (lastDuration s)),
          TxtLn '' ms. System Shutdown.'']\<rparr>) \<and>
   (procStop ((procStop (s\<lparr>actionStop := True\<rparr>))\<lparr>actionStop := True\<rparr>))\<lparr>serial := tr\<rparr>
     = (procStop (s\<lparr>actionStop := True\<rparr>))\<lparr>serial := tr\<rparr> \<and>
   stopSystem (stopSystem t) = stopSystem t \<and>
   shortPressCount (stopSystem t) = 0 \<and> ledPin (stopSystem t) = LOW \<and>
   \<not> clockRunning (stopSystem t)"
  using stopTimer_off [of s] stopSystem_not_running [of t]
  by (simp add: stopTimer_def procStop_def stopSystem_def)

text \<open>Every block of \<open>loop\<close> and every handled event other than a medium press keeps
  the sketch off.\<close>

lemma procStop_off: "systemOff s \<Longrightarrow> systemOff (procStop s)"
  using stopTimer_off [of "s\<lparr>actionStop := False, actionStart := False,
      serial := serial s @
        [Txt ''OFF: Duration '', Dec (uint (lastDuration s)),
         TxtLn '' ms. System Shutdown.'']\<rparr>"]
  by (simp add: systemOff_def procStop_def)

lemma procShort_off: "systemOff s \<Longrightarrow> systemOff (procShort t s)"
  by (simp add: systemOff_def procShort_def clockRunning_def compareIrqEnabled_def)

lemma flashTimeout_off: "systemOff s \<Longrightarrow> systemOff (flashTimeout t s)"
  by (simp add: systemOff_def flashTimeout_def clockRunning_def compareIrqEnabled_def)

lemma procStart_off: "systemOff s \<Longrightarrow> systemOff (procStart s)"
  by (simp add: systemOff_def procStart_def)

lemma loop_off: "systemOff s \<Longrightarrow> systemOff (loop t1 t2 s)"
  by (simp add: loop_def procStop_off procShort_off flashTimeout_off procStart_off)

lemma buttonISR_off:
  "systemOff s \<Longrightarrow> \<not> isMediumPress (Button now lvl) s \<Longrightarrow> systemOff (buttonISR now lvl s)"
  by (cases lvl)
     (auto simp: systemOff_def buttonISR_def accepted_def Let_def clockRunning_def
        compareIrqEnabled_def split: press.splits)

lemma step_off: "systemOff s \<Longrightarrow> \<not> isMediumPress e s \<Longrightarrow> systemOff (step e s)"
proof (cases e)
  case (Button now lvl)
  assume "systemOff s" and "\<not> isMediumPress e s"
  with Button show ?thesis by (simp add: buttonISR_off del: isMediumPress.simps)
next
  case Timer1
  assume "systemOff s"
  with Timer1 show ?thesis by (simp add: systemOff_def)
next
  case (Loop t1 t2)
  assume "systemOff s"
  with Loop show ?thesis by (simp add: loop_off)
qed

lemma run_off: "systemOff s \<Longrightarrow> noMedium evs s \<Longrightarrow> systemOff (run evs s)"
proof (induction evs arbitrary: s)
  case Nil
  then show ?case by simp
next
  case (Cons e evs)
  from Cons.prems have "systemOff (step e s)" and "noMedium evs (step e s)"
    by (simp_all add: step_off)
  then show ?case by (simp add: Cons.IH)
qed

lemma procStop_fires: "actionStop s \<Longrightarrow> systemOff (procStop s) \<and> \<not> actionStop (procStop s)"
  using stopTimer_off [of "s\<lparr>actionStop := False, actionStart := False,
      serial := serial s @
        [Txt ''OFF: Duration '', Dec (uint (lastDuration s)),
         TxtLn '' ms. System Shutdown.'']\<rparr>"]
  by (simp add: systemOff_def procStop_def)

lemma rest_keeps_stop:
  "\<not> actionStop s \<Longrightarrow> \<not> actionStop (procStart (flashTimeout t2 (procShort t1 s)))"
  by (simp add: procStart_def flashTimeout_def procShort_def startTimer_def Let_def)

lemma loop_after_stop:
  "actionStop s \<Longrightarrow> systemOff (loop t1 t2 s) \<and> \<not> actionStop (loop t1 t2 s)"
  using procStop_fires [of s] rest_keeps_stop [of "procStop s" t2 t1]
  by (simp add: loop_def procShort_off flashTimeout_off procStart_off)

text \<open>
  C10. A pass of \<open>loop\<close> of part_000 that finds \<open>actionStop\<close> raised clears
  \<open>actionStop\<close> and \<open>actionStart\<close> and then calls \<open>stopTimer\<close>; at the end of the pass
  both flags are down, \<open>Blink\<close> is false, the timer clock is stopped and its interrupt
  disabled, also when \<open>actionStart\<close> had been raised before. This stays so through every
  sequence of button transitions, compare matches and passes of \<open>loop\<close> in which
  \<open>buttonISR\<close> classifies no release as Medium.
\<close>

theorem stop_clears_pending_start:
  assumes "actionStop s" and "noMedium evs (loop t1 t2 s)"
  shows
    "procStop s =
       stopTimer (s\<lparr>actionStop := False, actionStart := False,
         serial := serial s @
           [Txt ''OFF: Duration '', Dec (uint (lastDuration s)),
            TxtLn '' ms. System Shutdown.'']\<rparr>) \<and>
     \<not> actionStop (loop t1 t2 s) \<and> \<not> actionStart (loop t1 t2 s) \<and>
     \<not> Blink (loop t1 t2 s) \<and> systemOff (loop t1 t2 s) \<and>
     systemOff (run evs (loop t1 t2 s)) \<and> \<not> Blink (run evs (loop t1 t2 s)) \<and>
     \<not> clockRunning (run evs (loop t1 t2 s)) \<and>
     \<not> compareIrqEnabled (run evs (loop t1 t2 s))"
proof -
  have p: "procStop s =
       stopTimer (s\<lparr>actionStop := False, actionStart := False,
         serial := serial s @
           [Txt ''OFF: Duration '', Dec (uint (lastDuration s)),
            TxtLn '' ms. System Shutdown.'']\<rparr>)"
    using assms(1) by (simp add: procStop_def)
  have l: "systemOff (loop t1 t2 s)" "\<not> actionStop (loop t1 t2 s)"
    using loop_after_stop [OF assms(1), of t1 t2] by simp_all
  have r: "systemOff (run evs (loop t1 t2 s))"
    using l(1) assms(2) by (rule run_off)
  from p l r show ?thesis by (simp add: systemOff_def)
qed

text \<open>With \<open>actionStart\<close> and \<open>actionStop\<close> both raised, the pass of \<open>loop\<close> shuts
  down, and a later short press, compare match and passes of \<open>loop\<close> leave the sketch
  off.\<close>

theorem stop_clears_pending_start_witness:
  "actionStop bothPending \<and> actionStart bothPending \<and>
   noMedium afterwards (loop 10000 10000 bothPending) \<and>
   \<not> actionStart (loop 10000 10000 bothPending) \<and>
   \<not> Blink (loop 10000 10000 bothPending) \<and>
   \<not> Blink (run afterwards (loop 10000 10000 bothPending)) \<and>
   \<not> clockRunning (run afterwards (loop 10000 10000 bothPending))"
proof -
  have a: "actionStop bothPending" by code_simp
  have b: "actionStart bothPending" by code_simp
  have c: "noMedium afterwards (loop 10000 10000 bothPending)" by code_simp
  from stop_clears_pending_start [OF a c] a b c show ?thesis by simp
qed

section \<open>The count behind the blink period\<close>





































end
